theory Spec2Isabelle
  imports Main "HOL-Library.Sublist"
begin

section \<open>C strings and the libc functions used by socket\_server.c\<close>

text \<open>
  A C string is modelled by the list of its bytes before the terminating NUL; a
  \<open>const char*\<close> that may be NULL is a \<open>string option\<close>. A raw byte buffer (what
  \<open>read\<close> delivers) is a list of bytes that may contain NUL.
\<close>

definition NUL :: char where
  "NUL = CHR 0x00"

definition c_str :: "string \<Rightarrow> string" where
  \<comment> \<open>the C string that starts at the first byte of a buffer: its bytes up to the first NUL\<close>
  "c_str bytes = takeWhile (\<lambda>c. c \<noteq> NUL) bytes"

definition strncpy :: "nat \<Rightarrow> string \<Rightarrow> string" where
  \<comment> \<open>\<open>strncpy(dst, src, n); dst[n] = 0\<close>: at most \<open>n\<close> bytes of \<open>src\<close>, stopping at its NUL\<close>
  "strncpy n src = c_str (take n src)"

definition snprintf :: "string \<Rightarrow> nat \<Rightarrow> string \<Rightarrow> string" where
  \<comment> \<open>\<open>snprintf(response, resp_size, ...)\<close> with the formatted text \<open>out\<close>: the new content of
      the buffer. Nothing is written when \<open>resp_size\<close> is 0; otherwise at most
      \<open>resp_size - 1\<close> bytes and the terminator.\<close>
  "snprintf response resp_size out =
     (if resp_size = 0 then response else take (resp_size - 1) out)"

definition strtok :: "string \<Rightarrow> string \<Rightarrow> string option \<times> string" where
  \<comment> \<open>\<open>strtok\<close> scanning from \<open>s\<close> (its first argument when that is not NULL, the saved position
      otherwise) with the delimiter set \<open>delim\<close>: the token (\<open>None\<close> for NULL) and the new
      saved position. Leading delimiters are skipped; the token ends at the next delimiter,
      which is overwritten by NUL, and the scan resumes behind it.\<close>
  "strtok s delim =
     (let start = dropWhile (\<lambda>c. c \<in> set delim) s in
      if start = [] then (None, [])
      else (Some (takeWhile (\<lambda>c. c \<notin> set delim) start),
            (case dropWhile (\<lambda>c. c \<notin> set delim) start of
               [] \<Rightarrow> []
             | _ # rest \<Rightarrow> rest)))"

section \<open>The track manager (external subsystem)\<close>

datatype tm_call = TM_PLAY string | TM_STOP string | TM_STOP_ALL

text \<open>
  Modelled from the spec: \<open>track_manager_play\<close>, \<open>track_manager_stop\<close> and
  \<open>track_manager_stop_all\<close> are declared in a header that is not part of the sources at
  hand. Following the interface of the specification (\<open>play(track_id) -> bool\<close>,
  \<open>stop(track_id) -> bool\<close>, \<open>stop_all() -> bool\<close>, synchronous, may mutate the
  subsystem), they are parameters: arbitrary functions on an arbitrary subsystem state.
\<close>

record 's track_manager_api =
  api_play :: "'s \<Rightarrow> string \<Rightarrow> bool \<times> 's"
  api_stop :: "'s \<Rightarrow> string \<Rightarrow> bool \<times> 's"
  api_stop_all :: "'s \<Rightarrow> bool \<times> 's"

text \<open>
  What \<open>track_manager_ctx_t* mgr\<close> points to: the subsystem's state, and the calls made
  into the subsystem so far (oldest first).
\<close>

record 's track_manager_ctx =
  tm_state :: 's
  tm_calls :: "tm_call list"

definition track_manager_play ::
  "'s track_manager_api \<Rightarrow> 's track_manager_ctx \<Rightarrow> string \<Rightarrow> bool \<times> 's track_manager_ctx" where
  "track_manager_play api mgr track_id =
     (let (ok, s') = api_play api (tm_state mgr) track_id
      in (ok, \<lparr>tm_state = s', tm_calls = tm_calls mgr @ [TM_PLAY track_id]\<rparr>))"

definition track_manager_stop ::
  "'s track_manager_api \<Rightarrow> 's track_manager_ctx \<Rightarrow> string \<Rightarrow> bool \<times> 's track_manager_ctx" where
  "track_manager_stop api mgr track_id =
     (let (ok, s') = api_stop api (tm_state mgr) track_id
      in (ok, \<lparr>tm_state = s', tm_calls = tm_calls mgr @ [TM_STOP track_id]\<rparr>))"

definition track_manager_stop_all ::
  "'s track_manager_api \<Rightarrow> 's track_manager_ctx \<Rightarrow> bool \<times> 's track_manager_ctx" where
  "track_manager_stop_all api mgr =
     (let (ok, s') = api_stop_all api (tm_state mgr)
      in (ok, \<lparr>tm_state = s', tm_calls = tm_calls mgr @ [TM_STOP_ALL]\<rparr>))"

section \<open>Command handlers\<close>

text \<open>
  A handler \<open>int h(mgr, arg, response, resp_size)\<close> returns its \<open>int\<close> result, the new
  content of the response buffer and the subsystem as it leaves it.
\<close>

type_synonym 's handler =
  "'s track_manager_api \<Rightarrow> 's track_manager_ctx \<Rightarrow> string option \<Rightarrow> string \<Rightarrow> nat
     \<Rightarrow> int \<times> string \<times> 's track_manager_ctx"

definition handle_play :: "'s handler" where
  "handle_play api mgr track_id response resp_size =
     (case track_id of
        None \<Rightarrow> (-1, snprintf response resp_size ''ERROR: Missing track ID'', mgr)
      | Some tid \<Rightarrow>
          if tid = [] then (-1, snprintf response resp_size ''ERROR: Missing track ID'', mgr)
          else
            (let (ok, mgr') = track_manager_play api mgr tid in
             if ok then (0, snprintf response resp_size (''OK: Playing track '' @ tid), mgr')
             else (-1, snprintf response resp_size (''ERROR: Failed to play track '' @ tid), mgr')))"

definition handle_stop :: "'s handler" where
  "handle_stop api mgr track_id response resp_size =
     (case track_id of
        None \<Rightarrow> (-1, snprintf response resp_size ''ERROR: Missing track ID'', mgr)
      | Some tid \<Rightarrow>
          if tid = [] then (-1, snprintf response resp_size ''ERROR: Missing track ID'', mgr)
          else
            (let (ok, mgr') = track_manager_stop api mgr tid in
             if ok then (0, snprintf response resp_size (''OK: Stopped track '' @ tid), mgr')
             else (-1, snprintf response resp_size (''ERROR: Failed to stop track '' @ tid), mgr')))"

definition handle_stop_all :: "'s handler" where
  "handle_stop_all api mgr arg response resp_size =
     (let (ok, mgr') = track_manager_stop_all api mgr in
      if ok then (0, snprintf response resp_size ''OK: Stopped all tracks'', mgr')
      else (-1, snprintf response resp_size ''ERROR: Failed to stop all tracks'', mgr'))"

definition handle_list :: "'s handler" where
  "handle_list api mgr arg response resp_size =
     (0, snprintf response resp_size ''OK: Track listing not yet implemented'', mgr)"

definition handle_status :: "'s handler" where
  "handle_status api mgr arg response resp_size =
     (0, snprintf response resp_size ''OK: Status not yet implemented'', mgr)"

definition handle_reload :: "'s handler" where
  "handle_reload api mgr arg response resp_size =
     (0, snprintf response resp_size ''OK: Reload signal sent'', mgr)"

section \<open>Command table and dispatch\<close>

definition COMMANDS :: "(string \<times> 's handler) list" where
  "COMMANDS =
     [(''play'', handle_play),
      (''stop'', handle_stop),
      (''stop-all'', handle_stop_all),
      (''list'', handle_list),
      (''status'', handle_status),
      (''reload'', handle_reload)]"

fun find_handler :: "(string \<times> 's handler) list \<Rightarrow> string \<Rightarrow> 's handler option" where
  \<comment> \<open>the scan of \<open>process_command\<close>: the first entry whose keyword \<open>strcmp\<close> finds equal\<close>
  "find_handler [] cmd = None"
| "find_handler ((name, h) # table) cmd =
     (if name = cmd then Some h else find_handler table cmd)"

definition split_command :: "string \<Rightarrow> string option \<times> string option" where
  \<comment> \<open>the first lines of \<open>process_command\<close>: copy into \<open>cmd_buf[256]\<close>, then the two
      \<open>strtok\<close> calls; returns \<open>(cmd, arg)\<close>\<close>
  "split_command cmd_str =
     (let cmd_buf = strncpy 255 cmd_str;
          (cmd, saved) = strtok cmd_buf '' '';
          (arg, saved') = strtok saved ''''
      in (cmd, arg))"

definition process_command ::
  "'s track_manager_api \<Rightarrow> string \<Rightarrow> 's track_manager_ctx \<Rightarrow> string \<Rightarrow> nat
     \<Rightarrow> int \<times> string \<times> 's track_manager_ctx" where
  "process_command api cmd_str mgr response resp_size =
     (let (cmd, arg) = split_command cmd_str in
      case cmd of
        None \<Rightarrow> (-1, snprintf response resp_size ''ERROR: Empty command'', mgr)
      | Some c \<Rightarrow>
          (case find_handler COMMANDS c of
             Some h \<Rightarrow> h api mgr arg response resp_size
           | None \<Rightarrow>
               (-1, snprintf response resp_size (''ERROR: Unknown command '' @ [CHR 0x27] @ c @ [CHR 0x27]), mgr)))"


section \<open>The parser as the specification words it\<close>

definition isspace :: "char \<Rightarrow> bool" where
  \<comment> \<open>the whitespace characters of C's \<open>isspace\<close> in the "C" locale\<close>
  "isspace c = (c \<in> {CHR '' '', CHR 0x09, CHR 0x0A, CHR 0x0B, CHR 0x0C, CHR 0x0D})"

definition spec_split_first_whitespace_run :: "string \<Rightarrow> string \<times> string" where
  \<comment> \<open>follows the specification's sentence, not the code: "Splits on the first whitespace run;
      everything before is the keyword, everything after (including embedded whitespace, with
      no further splitting) is the argument."\<close>
  "spec_split_first_whitespace_run line =
     (takeWhile (\<lambda>c. \<not> isspace c) line,
      dropWhile isspace (dropWhile (\<lambda>c. \<not> isspace c) line))"

section \<open>Logging and the operating system\<close>

datatype log_level = LOG_DEBUG | LOG_INFO | LOG_ERROR

text \<open>
  The listener context \<open>socket_server_ctx_t\<close> with the fields that \<open>socket_server.c\<close>
  uses (the declaration is in \<open>socket_server.h\<close>); \<open>thread\<close> is the thread handle, 0
  when there is none, and \<open>track_manager\<close> the pointer to the subsystem.

  The state of the process as far as \<open>socket_server_init\<close> touches it: the open file
  descriptors, the live heap blocks (by address) with the listener context stored in
  them, the files that exist (path to permission bits) and the lines logged.
\<close>

record socket_server_ctx =
  server_fd :: int
  socket_path :: string
  running :: bool
  thread :: nat
  track_manager :: "nat option"

record os_state =
  open_fds :: "int set"
  heap :: "nat \<rightharpoonup> socket_server_ctx"
  files :: "string \<rightharpoonup> nat"
  logged :: "(log_level \<times> string) list"

text \<open>
  What the environment answers to the calls of one \<open>socket_server_init\<close>: the block
  \<open>calloc\<close> returns (\<open>None\<close> for NULL), the user id, the results of \<open>socket\<close>, \<open>bind\<close>
  and \<open>listen\<close>, and the permission bits \<open>bind\<close> gives the file it creates.
\<close>

record sys_results =
  calloc_result :: "nat option"
  getuid_result :: int
  socket_result :: int
  bind_result :: int
  listen_result :: int
  bind_file_mode :: nat

definition log_msg :: "log_level \<Rightarrow> string \<Rightarrow> os_state \<Rightarrow> os_state" where
  "log_msg lvl msg os = os\<lparr>logged := logged os @ [(lvl, msg)]\<rparr>"

definition sys_free :: "nat \<Rightarrow> os_state \<Rightarrow> os_state" where
  "sys_free p os = os\<lparr>heap := (heap os)(p := None)\<rparr>"

definition sys_close :: "int \<Rightarrow> os_state \<Rightarrow> os_state" where
  "sys_close fd os = os\<lparr>open_fds := open_fds os - {fd}\<rparr>"

definition sys_unlink :: "string \<Rightarrow> os_state \<Rightarrow> os_state" where
  "sys_unlink path os = os\<lparr>files := (files os)(path := None)\<rparr>"

definition sys_chmod :: "string \<Rightarrow> nat \<Rightarrow> os_state \<Rightarrow> os_state" where
  "sys_chmod path mode os =
     (if path \<in> dom (files os) then os\<lparr>files := (files os)(path \<mapsto> mode)\<rparr> else os)"

section \<open>Socket path\<close>

function dec_digits :: "nat \<Rightarrow> string" where
  "dec_digits n =
     (if n < 10 then [''0123456789'' ! n]
      else dec_digits (n div 10) @ [''0123456789'' ! (n mod 10)])"
  by pat_completeness auto
termination
  by (relation "measure id") auto

definition format_d :: "int \<Rightarrow> string" where
  \<comment> \<open>the conversion \<open>%d\<close>\<close>
  "format_d i = (if i < 0 then CHR ''-'' # dec_digits (nat (- i)) else dec_digits (nat i))"

definition get_socket_path :: "int \<Rightarrow> string option \<Rightarrow> nat \<Rightarrow> string option" where
  \<comment> \<open>\<open>uid\<close> is \<open>(int)getuid()\<close>; \<open>buffer\<close> is \<open>None\<close> for NULL and the old content otherwise;
      the result is \<open>None\<close> for NULL and the new content of the buffer otherwise\<close>
  "get_socket_path uid buffer buf_size =
     (case buffer of
        None \<Rightarrow> None
      | Some old \<Rightarrow>
          if buf_size = 0 then None
          else
            (let dir_path = snprintf [] 256 (''/var/run/user/'' @ format_d uid @ ''/papa'')
             in Some (snprintf old buf_size (dir_path @ ''/papad.sock''))))"

section \<open>Initialisation of the listener\<close>

definition SUN_PATH_SIZE :: nat where
  \<comment> \<open>\<open>sizeof(addr.sun_path)\<close> in Linux's \<open>sys/un.h\<close>\<close>
  "SUN_PATH_SIZE = 108"

definition socket_server_init ::
  "nat \<Rightarrow> sys_results \<Rightarrow> nat option \<Rightarrow> os_state \<Rightarrow> nat option \<times> os_state" where
  \<comment> \<open>\<open>path_size\<close> is \<open>sizeof(ctx->socket_path)\<close>, declared in \<open>socket_server.h\<close>;
      \<open>mgr_ptr\<close> is the argument \<open>track_manager\<close>. The result is the pointer returned
      (\<open>None\<close> for NULL) and the state left behind.\<close>
  "socket_server_init path_size env mgr_ptr os =
     (case calloc_result env of
        None \<Rightarrow> (None, log_msg LOG_ERROR ''Failed to allocate socket server context'' os)
      | Some ctx \<Rightarrow>
          (let zeroed = \<lparr>server_fd = 0, socket_path = [], running = False, thread = 0,
                         track_manager = None\<rparr>;
               os1 = os\<lparr>heap := (heap os)(ctx \<mapsto> zeroed)\<rparr>
           in case get_socket_path (getuid_result env) (Some (socket_path zeroed)) path_size of
                None \<Rightarrow> (None, sys_free ctx (log_msg LOG_ERROR ''Failed to get socket path'' os1))
              | Some path \<Rightarrow>
                  (let os2 = sys_unlink path os1;
                       fd = socket_result env
                   in if fd < 0
                      then (None, sys_free ctx (log_msg LOG_ERROR ''Socket creation failed'' os2))
                      else
                        (let os3 = os2\<lparr>open_fds := insert fd (open_fds os2)\<rparr>;
                             sun_path = strncpy (SUN_PATH_SIZE - 1) path
                         in if bind_result env < 0
                            then (None, sys_free ctx (sys_close fd
                                    (log_msg LOG_ERROR ''Socket bind failed'' os3)))
                            else
                              (let os4 = os3\<lparr>files := (files os3)(sun_path \<mapsto> bind_file_mode env)\<rparr>
                               in if listen_result env < 0
                                  then (None, sys_free ctx (sys_close fd
                                          (log_msg LOG_ERROR ''Socket listen failed'' os4)))
                                  else
                                    (let os5 = sys_chmod path 438 os4;
                                         os6 = log_msg LOG_INFO
                                                 (''Socket server initialized at '' @ path) os5
                                     in (Some ctx,
                                         os6\<lparr>heap := (heap os6)(ctx \<mapsto>
                                           \<lparr>server_fd = fd, socket_path = path,
                                            running = False, thread = 0,
                                            track_manager = mgr_ptr\<rparr>)\<rparr>)))))))"

section \<open>The connection server loop\<close>

datatype event =
    LOG log_level string
  | ACCEPT int
  | READ int int
  | PROCESS string
  | WRITE int string
  | CLOSE int

text \<open>
  What the worker owns and what it has done: the subsystem, the content of
  \<open>response[1024]\<close>, and the calls made so far, oldest first (\<open>ACCEPT\<close> and \<open>READ\<close> with
  their results, \<open>PROCESS\<close> with the command string handed to \<open>process_command\<close>).
\<close>

record 's thread_state =
  th_mgr :: "'s track_manager_ctx"
  th_response :: string
  th_events :: "event list"

text \<open>
  What the environment supplies to one pass of the loop: the value of \<open>ctx->running\<close> at
  the loop test and after a failed \<open>accept\<close> (the controlling thread may clear it in
  between), the result of \<open>accept\<close>, and the outcome of \<open>read\<close>: \<open>None\<close> for an error,
  otherwise the bytes the connection holds.
\<close>

record iteration_env =
  it_running :: bool
  it_accept :: int
  it_running_after :: bool
  it_read :: "string option"

definition sys_read :: "string option \<Rightarrow> nat \<Rightarrow> int \<times> string" where
  \<comment> \<open>\<open>read(fd, buffer, count)\<close>: the byte count returned and the bytes stored\<close>
  "sys_read incoming count =
     (case incoming of
        None \<Rightarrow> (-1, [])
      | Some bytes \<Rightarrow> (int (length (take count bytes)), take count bytes))"

definition emit :: "event \<Rightarrow> 's thread_state \<Rightarrow> 's thread_state" where
  "emit ev st = st\<lparr>th_events := th_events st @ [ev]\<rparr>"

definition serve_connection ::
  "'s track_manager_api \<Rightarrow> iteration_env \<Rightarrow> 's thread_state \<Rightarrow> 's thread_state" where
  \<comment> \<open>the body of the \<open>while\<close> loop of \<open>socket_server_thread\<close>\<close>
  "serve_connection api env st =
     (let client_fd = it_accept env;
          st1 = emit (ACCEPT client_fd) st
      in if client_fd < 0
         then (if it_running_after env then emit (LOG LOG_ERROR ''Socket accept failed'') st1
               else st1)
         else
           (let (bytes_read, buffer) = sys_read (it_read env) (1024 - 1);
                st2 = emit (READ client_fd bytes_read) st1;
                st3 =
                  (if bytes_read > 0
                   then
                     (let st_log = emit (LOG LOG_DEBUG (''Received command: '' @ c_str buffer)) st2;
                          (rc, response, mgr') =
                             process_command api buffer (th_mgr st_log) (th_response st_log) 1024;
                          st_done = (emit (PROCESS buffer) st_log)
                                       \<lparr>th_mgr := mgr', th_response := response\<rparr>
                      in emit (WRITE client_fd response) st_done)
                   else st2)
            in emit (CLOSE client_fd) st3))"

fun server_loop ::
  "'s track_manager_api \<Rightarrow> iteration_env list \<Rightarrow> 's thread_state \<Rightarrow> bool \<times> 's thread_state" where
  \<comment> \<open>the \<open>while (ctx->running)\<close> loop over the passes the environment supplies; the flag
      tells whether the loop has left (\<open>True\<close>) or is still waiting in \<open>accept\<close>\<close>
  "server_loop api [] st = (False, st)"
| "server_loop api (env # envs) st =
     (if it_running env then server_loop api envs (serve_connection api env st)
      else (True, st))"

definition socket_server_thread ::
  "'s track_manager_api \<Rightarrow> iteration_env list \<Rightarrow> 's thread_state \<Rightarrow> bool \<times> 's thread_state" where
  "socket_server_thread api envs st =
     (let (left, st') = server_loop api envs (emit (LOG LOG_INFO ''Socket server thread started'') st)
      in if left then (True, emit (LOG LOG_INFO ''Socket server thread stopped'') st')
         else (False, st'))"

section \<open>A concrete subsystem\<close>

text \<open>
  A small track manager to run the definitions on: its state is the list of playing
  tracks; every track but \<open>nosuch\<close> can be played, a track can be stopped when it is
  playing, and stopping all tracks always succeeds.
\<close>

definition demo_api :: "string list track_manager_api" where
  "demo_api =
     \<lparr>api_play = (\<lambda>s t. if t = ''nosuch'' then (False, s) else (True, t # s)),
      api_stop = (\<lambda>s t. (t \<in> set s, removeAll t s)),
      api_stop_all = (\<lambda>s. (True, []))\<rparr>"

definition demo_mgr :: "string list track_manager_ctx" where
  "demo_mgr = \<lparr>tm_state = [''intro''], tm_calls = []\<rparr>"


section \<open>Facts about the string functions\<close>

lemma c_str_no_NUL: "NUL \<notin> set s \<Longrightarrow> c_str s = s"
  by (auto simp: c_str_def)

lemma strncpy_take: "strncpy n (take n s) = strncpy n s"
  by (simp add: strncpy_def)

lemma length_strncpy: "length (strncpy n s) \<le> n"
  unfolding strncpy_def c_str_def
  by (rule order_trans[OF length_takeWhile_le]) simp

lemma snprintf_fits: "length out < resp_size \<Longrightarrow> snprintf response resp_size out = out"
  by (simp add: snprintf_def)

lemma strtok_no_delim: "strtok s [] = (if s = [] then None else Some s, [])"
proof -
  have d: "dropWhile (\<lambda>c. True) s = []" by simp
  show ?thesis by (simp add: strtok_def d)
qed

lemma strtok_token_length:
  assumes "strtok s d = (Some k, rest)"
  shows "length k \<le> length s"
proof -
  have "length (takeWhile (\<lambda>c. c \<notin> set d) (dropWhile (\<lambda>c. c \<in> set d) s)) \<le> length s"
    by (rule order_trans[OF length_takeWhile_le length_dropWhile_le])
  with assms show ?thesis
    by (auto simp: strtok_def Let_def split: if_splits)
qed

lemma strtok_spaces_only: "strtok (replicate n (CHR '' '')) '' '' = (None, [])"
  by (simp add: strtok_def)

lemma strtok_keyword_end:
  assumes "k \<noteq> []" and "CHR '' '' \<notin> set k"
  shows "strtok (replicate n (CHR '' '') @ k) '' '' = (Some k, [])"
proof -
  have "dropWhile (\<lambda>c. c \<in> set '' '') (replicate n (CHR '' '') @ k) = k"
    using assms by (cases k) (auto simp: dropWhile_append)
  moreover have "takeWhile (\<lambda>c. c \<notin> set '' '') k = k"
    using assms by auto
  moreover have "dropWhile (\<lambda>c. c \<notin> set '' '') k = []"
    using assms by auto
  ultimately show ?thesis
    using assms by (simp add: strtok_def del: dropWhile_eq_Nil_conv takeWhile_eq_all_conv)
qed

lemma strtok_keyword_space:
  assumes "k \<noteq> []" and "CHR '' '' \<notin> set k"
  shows "strtok (replicate n (CHR '' '') @ k @ CHR '' '' # a) '' '' = (Some k, a)"
proof -
  have "dropWhile (\<lambda>c. c \<in> set '' '') (replicate n (CHR '' '') @ k @ CHR '' '' # a) = k @ CHR '' '' # a"
    using assms by (cases k) (auto simp: dropWhile_append)
  moreover have "takeWhile (\<lambda>c. c \<notin> set '' '') (k @ CHR '' '' # a) = k"
    using assms by (auto simp: takeWhile_tail)
  moreover have "dropWhile (\<lambda>c. c \<notin> set '' '') (k @ CHR '' '' # a) = CHR '' '' # a"
    using assms by (auto simp: dropWhile_append)
  ultimately show ?thesis using assms by (simp add: strtok_def)
qed

section \<open>Facts about the parser and the command table\<close>

lemma find_handler_COMMANDS_None:
  "k \<notin> {''play'', ''stop'', ''stop-all'', ''list'', ''status'', ''reload''} \<Longrightarrow>
   find_handler (COMMANDS :: (string \<times> 's handler) list) k = None"
  by (auto simp: COMMANDS_def)

lemma split_command_keyword_length:
  assumes "split_command cmd_str = (Some k, arg)"
  shows "length k \<le> 255"
proof -
  obtain rest where "strtok (strncpy 255 cmd_str) '' '' = (Some k, rest)"
    using assms by (auto simp: split_command_def Let_def split: prod.splits)
  then have "length k \<le> length (strncpy 255 cmd_str)"
    by (rule strtok_token_length)
  then show ?thesis using length_strncpy[of 255 cmd_str] by simp
qed

lemma split_command_play:
  assumes "tid \<noteq> []" and "NUL \<notin> set tid"
  shows "split_command (''play '' @ tid) = (Some ''play'', Some (take 250 tid))"
proof -
  have tk: "take 255 (''play '' @ tid) = ''play '' @ take 250 tid" by simp
  have "NUL \<notin> set (''play '' @ take 250 tid)"
    using assms(2) by (auto simp: NUL_def dest: in_set_takeD)
  then have "c_str (''play '' @ take 250 tid) = ''play '' @ take 250 tid"
    by (rule c_str_no_NUL)
  then have buf: "strncpy 255 (''play '' @ tid) = ''play '' @ take 250 tid"
    unfolding strncpy_def tk .
  have tok: "strtok (''play '' @ take 250 tid) '' '' = (Some ''play'', take 250 tid)"
    using strtok_keyword_space[of "''play''" 0 "take 250 tid"] by simp
  have ne: "take 250 tid \<noteq> []" using assms(1) by simp
  show ?thesis
    unfolding split_command_def buf Let_def tok prod.case strtok_no_delim
    using ne by simp
qed

section \<open>Missing track identifier\<close>

text \<open>
  Claim C1. When the argument of the play or the stop handler is absent (NULL) or the
  empty string, the handler fails (result \<open>-1\<close>), the reply is exactly
  \<open>ERROR: Missing track ID\<close>, and the subsystem is handed back as it was: no call into it
  has been made. The response buffer must hold the message (the only caller passes
  \<open>resp_size = 1024\<close>).
\<close>

theorem missing_track_id:
  assumes "track_id = None \<or> track_id = Some []"
    and "length ''ERROR: Missing track ID'' < resp_size"
  shows "handle_play api mgr track_id response resp_size = (-1, ''ERROR: Missing track ID'', mgr)
       \<and> handle_stop api mgr track_id response resp_size = (-1, ''ERROR: Missing track ID'', mgr)"
  using assms by (auto simp: handle_play_def handle_stop_def snprintf_def)

theorem missing_track_id_witness:
  "handle_play demo_api demo_mgr (Some []) ''stale'' 1024 = (-1, ''ERROR: Missing track ID'', demo_mgr)
   \<and> handle_stop demo_api demo_mgr (Some []) ''stale'' 1024 = (-1, ''ERROR: Missing track ID'', demo_mgr)
   \<and> tm_calls demo_mgr = []"
  using missing_track_id[of "Some []" 1024 demo_api demo_mgr "''stale''"]
  by (simp add: demo_mgr_def)

section \<open>Unknown commands\<close>

lemma unknown_keyword_reply:
  fixes api :: "'s track_manager_api"
  assumes "split_command cmd_str = (Some k, arg)"
    and "k \<notin> {''play'', ''stop'', ''stop-all'', ''list'', ''status'', ''reload''}"
    and "281 \<le> resp_size"
  shows "process_command api cmd_str mgr response resp_size =
           (-1, ''ERROR: Unknown command '' @ [CHR 0x27] @ k @ [CHR 0x27], mgr)"
proof -
  have "length k \<le> 255" using assms(1) by (rule split_command_keyword_length)
  then have "length (''ERROR: Unknown command '' @ [CHR 0x27] @ k @ [CHR 0x27]) < resp_size"
    using assms(3) by simp
  then have out: "snprintf response resp_size (''ERROR: Unknown command '' @ [CHR 0x27] @ k @ [CHR 0x27])
      = ''ERROR: Unknown command '' @ [CHR 0x27] @ k @ [CHR 0x27]"
    by (rule snprintf_fits)
  have miss: "find_handler (COMMANDS :: (string \<times> 's handler) list) k = None"
    using assms(2) by (rule find_handler_COMMANDS_None)
  show ?thesis
    unfolding process_command_def assms(1)
    by (simp only: Let_def prod.case option.case miss out)
qed

lemma split_command_keyword:
  assumes "k \<noteq> []" and "CHR '' '' \<notin> set k" and "NUL \<notin> set k" and "NUL \<notin> set rest"
    and "rest = [] \<or> (\<exists>a. rest = CHR '' '' # a)"
    and "n < 255"
  shows "fst (split_command (replicate n (CHR '' '') @ k @ rest)) = Some (take (255 - n) k)"
proof -
  define kw where "kw = take (255 - n) k"
  define r where "r = take (255 - n - length k) rest"
  have tk: "take 255 (replicate n (CHR '' '') @ k @ rest) = replicate n (CHR '' '') @ kw @ r"
    using assms(6) by (simp add: kw_def r_def)
  have "NUL \<notin> set (replicate n (CHR '' '') @ kw @ r)"
    using assms(3,4) by (auto simp: NUL_def kw_def r_def dest: in_set_takeD)
  then have "c_str (replicate n (CHR '' '') @ kw @ r) = replicate n (CHR '' '') @ kw @ r"
    by (rule c_str_no_NUL)
  then have buf: "strncpy 255 (replicate n (CHR '' '') @ k @ rest) = replicate n (CHR '' '') @ kw @ r"
    unfolding strncpy_def tk .
  have ne: "kw \<noteq> []" using assms(1,6) by (simp add: kw_def)
  have nsp: "CHR '' '' \<notin> set kw" using assms(2) by (auto simp: kw_def dest: in_set_takeD)
  have "r = [] \<or> (\<exists>a. r = CHR '' '' # a)"
  proof (cases "255 - n - length k")
    case 0
    then show ?thesis by (simp add: r_def)
  next
    case (Suc m)
    then show ?thesis using assms(5) by (auto simp: r_def)
  qed
  then have "fst (strtok (replicate n (CHR '' '') @ kw @ r) '' '') = Some kw"
  proof
    assume r: "r = []"
    have "strtok (replicate n (CHR '' '') @ kw) '' '' = (Some kw, [])"
      using ne nsp by (rule strtok_keyword_end)
    then show ?thesis unfolding r append_Nil2 by (simp only: fst_conv)
  next
    assume "\<exists>a. r = CHR '' '' # a"
    then obtain a where r: "r = CHR '' '' # a" by blast
    have "strtok (replicate n (CHR '' '') @ kw @ CHR '' '' # a) '' '' = (Some kw, a)"
      using ne nsp by (rule strtok_keyword_space)
    then show ?thesis unfolding r by (simp only: fst_conv)
  qed
  then obtain saved where tok: "strtok (replicate n (CHR '' '') @ kw @ r) '' '' = (Some kw, saved)"
    by (cases "strtok (replicate n (CHR '' '') @ kw @ r) '' ''") simp
  have "fst (split_command (replicate n (CHR '' '') @ k @ rest)) = Some kw"
    unfolding split_command_def buf Let_def tok prod.case
    by (simp add: split: prod.splits)
  then show ?thesis unfolding kw_def .
qed

text \<open>
  Claim C2, as stated, fails in two ways. A line of 300 letters \<open>k\<close> has that word as its
  keyword, but the command buffer keeps 255 bytes and the reply names the word of 255
  letters. And in the line \<open>bogus<TAB>x\<close> the keyword that ends at the first whitespace is
  \<open>bogus\<close>, but only the space character separates in the code and the reply names the
  whole line.
\<close>

theorem unknown_command_counterexample:
  "fst (spec_split_first_whitespace_run (replicate 300 (CHR ''k''))) = replicate 300 (CHR ''k'')
   \<and> process_command demo_api (replicate 300 (CHR ''k'')) demo_mgr ''stale'' 1024 =
       (-1, ''ERROR: Unknown command '' @ [CHR 0x27] @ replicate 255 (CHR ''k'') @ [CHR 0x27], demo_mgr)
   \<and> ''ERROR: Unknown command '' @ [CHR 0x27] @ replicate 255 (CHR ''k'') @ [CHR 0x27]
       \<noteq> ''ERROR: Unknown command '' @ [CHR 0x27] @ replicate 300 (CHR ''k'') @ [CHR 0x27]
   \<and> fst (spec_split_first_whitespace_run (''bogus'' @ [CHR 0x09] @ ''x'')) = ''bogus''
   \<and> process_command demo_api (''bogus'' @ [CHR 0x09] @ ''x'') demo_mgr ''stale'' 1024 =
       (-1, ''ERROR: Unknown command '' @ [CHR 0x27] @ (''bogus'' @ [CHR 0x09] @ ''x'') @ [CHR 0x27],
        demo_mgr)
   \<and> ''ERROR: Unknown command '' @ [CHR 0x27] @ (''bogus'' @ [CHR 0x09] @ ''x'') @ [CHR 0x27]
       \<noteq> ''ERROR: Unknown command '' @ [CHR 0x27] @ ''bogus'' @ [CHR 0x27]"
  by code_simp

text \<open>
  Claim C2, amended. Take an input line of text (no NUL byte) that consists of \<open>n\<close> spaces
  (fewer than 255), a non-empty word \<open>k\<close> without a space character, and then either
  nothing or a space character and anything. Let \<open>k'\<close> be the part of \<open>k\<close> that lies
  within the first 255 bytes of the line (\<open>k\<close> itself when it ends there). When \<open>k'\<close> is
  none of \<open>play\<close>, \<open>stop\<close>, \<open>stop-all\<close>, \<open>list\<close>, \<open>status\<close>, \<open>reload\<close>, then
  \<open>process_command\<close> fails (result \<open>-1\<close>), the reply is exactly
  \<open>ERROR: Unknown command '<k'>'\<close>, and the subsystem is untouched. The response buffer
  must hold 281 bytes (the caller's has 1024).
\<close>

theorem unknown_command:
  fixes api :: "'s track_manager_api" and mgr :: "'s track_manager_ctx"
    and k rest response :: string and n resp_size :: nat
  assumes "k \<noteq> []" and "CHR '' '' \<notin> set k" and "NUL \<notin> set k" and "NUL \<notin> set rest"
    and "rest = [] \<or> (\<exists>a. rest = CHR '' '' # a)"
    and "n < 255"
    and "take (255 - n) k \<notin> {''play'', ''stop'', ''stop-all'', ''list'', ''status'', ''reload''}"
    and "281 \<le> resp_size"
  defines "k' \<equiv> take (255 - n) k"
  shows "process_command api (replicate n (CHR '' '') @ k @ rest) mgr response resp_size =
           (-1, ''ERROR: Unknown command '' @ [CHR 0x27] @ k' @ [CHR 0x27], mgr)
       \<and> (n + length k \<le> 255 \<longrightarrow> k' = k)"
proof -
  have "fst (split_command (replicate n (CHR '' '') @ k @ rest)) = Some k'"
    unfolding k'_def using assms(1-6) by (rule split_command_keyword)
  then obtain arg where sp: "split_command (replicate n (CHR '' '') @ k @ rest) = (Some k', arg)"
    by (cases "split_command (replicate n (CHR '' '') @ k @ rest)") simp
  have "k' \<notin> {''play'', ''stop'', ''stop-all'', ''list'', ''status'', ''reload''}"
    unfolding k'_def by (rule assms(7))
  with sp have "process_command api (replicate n (CHR '' '') @ k @ rest) mgr response resp_size =
           (-1, ''ERROR: Unknown command '' @ [CHR 0x27] @ k' @ [CHR 0x27], mgr)"
    using assms(8) by (rule unknown_keyword_reply)
  moreover have "n + length k \<le> 255 \<longrightarrow> k' = k"
    by (simp add: k'_def)
  ultimately show ?thesis by blast
qed

theorem unknown_command_witness:
  "process_command demo_api ''  bogus 1 2'' demo_mgr ''stale'' 1024 =
     (-1, ''ERROR: Unknown command '' @ [CHR 0x27] @ ''bogus'' @ [CHR 0x27], demo_mgr)"
proof -
  have "''bogus'' \<noteq> []" "CHR '' '' \<notin> set ''bogus''" "NUL \<notin> set ''bogus''"
    "NUL \<notin> set '' 1 2''" "'' 1 2'' = [] \<or> (\<exists>a. '' 1 2'' = CHR '' '' # a)" "(2::nat) < 255"
    "take (255 - 2) ''bogus'' \<notin> {''play'', ''stop'', ''stop-all'', ''list'', ''status'', ''reload''}"
    "281 \<le> (1024::nat)"
    by (simp_all add: NUL_def)
  from unknown_command[OF this, of demo_api demo_mgr "''stale''"]
  show ?thesis by (simp add: numeral_2_eq_2)
qed

section \<open>Playing a track\<close>

text \<open>
  Claim C3, as stated, fails for a track identifier of more than 250 bytes: the line
  \<open>play\<close>, a space and 251 letters \<open>a\<close> is cut to the 255 bytes of the command buffer, the
  subsystem is asked for the track of 250 letters and the reply names that track, not the
  one of the line.
\<close>

theorem play_long_id_counterexample:
  "process_command demo_api (''play '' @ replicate 251 (CHR ''a'')) demo_mgr ''stale'' 1024 =
     (0, ''OK: Playing track '' @ replicate 250 (CHR ''a''),
      \<lparr>tm_state = [replicate 250 (CHR ''a''), ''intro''],
       tm_calls = [TM_PLAY (replicate 250 (CHR ''a''))]\<rparr>)
   \<and> ''OK: Playing track '' @ replicate 250 (CHR ''a'')
       \<noteq> ''OK: Playing track '' @ replicate 251 (CHR ''a'')"
  by code_simp

text \<open>
  Claim C3, amended. For every input line \<open>play <id>\<close> whose track identifier is not empty
  and is text (no NUL byte), let \<open><id'>\<close> be the first 250 bytes of the identifier (the
  identifier itself when it has at most 250 bytes). The subsystem is asked once to play
  \<open><id'>\<close>; when it succeeds the result is \<open>0\<close> and the reply is exactly
  \<open>OK: Playing track <id'>\<close>, when it refuses the result is \<open>-1\<close> and the reply is exactly
  \<open>ERROR: Failed to play track <id'>\<close>. The response buffer must hold 279 bytes (the
  caller's has 1024).
\<close>

theorem play_reply:
  fixes api :: "'s track_manager_api" and mgr :: "'s track_manager_ctx"
    and track_id response :: string and resp_size :: nat
  assumes "track_id \<noteq> []" and "NUL \<notin> set track_id" and "279 \<le> resp_size"
  defines "tid \<equiv> take 250 track_id"
  defines "r \<equiv> process_command api (''play '' @ track_id) mgr response resp_size"
  shows "(fst (track_manager_play api mgr tid) \<longrightarrow>
            fst r = 0 \<and> fst (snd r) = ''OK: Playing track '' @ tid)
       \<and> (\<not> fst (track_manager_play api mgr tid) \<longrightarrow>
            fst r = -1 \<and> fst (snd r) = ''ERROR: Failed to play track '' @ tid)
       \<and> snd (snd r) = snd (track_manager_play api mgr tid)
       \<and> (length track_id \<le> 250 \<longrightarrow> tid = track_id)"
proof -
  have sp: "split_command (''play '' @ track_id) = (Some ''play'', Some tid)"
    unfolding tid_def using assms(1,2) by (rule split_command_play)
  have ne: "tid \<noteq> []" using assms(1) by (simp add: tid_def)
  have len: "length tid \<le> 250" by (simp add: tid_def)
  have fh: "find_handler (COMMANDS :: (string \<times> 's handler) list) ''play'' = Some handle_play"
    by (simp add: COMMANDS_def)
  have r_eq: "r = handle_play api mgr (Some tid) response resp_size"
    unfolding r_def process_command_def sp by (simp only: Let_def prod.case option.case fh)
  have ok: "snprintf response resp_size (''OK: Playing track '' @ tid) = ''OK: Playing track '' @ tid"
    using len assms(3) by (intro snprintf_fits) simp
  have bad: "snprintf response resp_size (''ERROR: Failed to play track '' @ tid)
               = ''ERROR: Failed to play track '' @ tid"
    using len assms(3) by (intro snprintf_fits) simp
  obtain b m' where tm: "track_manager_play api mgr tid = (b, m')"
    by (cases "track_manager_play api mgr tid")
  have "r = (if b then (0, ''OK: Playing track '' @ tid, m')
             else (-1, ''ERROR: Failed to play track '' @ tid, m'))"
    unfolding r_eq handle_play_def
    by (simp only: option.case ne if_False tm prod.case Let_def ok bad)
  moreover have "length track_id \<le> 250 \<longrightarrow> tid = track_id"
    by (simp add: tid_def)
  ultimately show ?thesis
    unfolding tm by (cases b) simp_all
qed

theorem play_reply_witness:
  "process_command demo_api ''play track42'' demo_mgr ''stale'' 1024 =
     (0, ''OK: Playing track track42'',
      \<lparr>tm_state = [''track42'', ''intro''], tm_calls = [TM_PLAY ''track42'']\<rparr>)"
proof -
  have "''track42'' \<noteq> []" "NUL \<notin> set ''track42''" "279 \<le> (1024::nat)"
    by (simp_all add: NUL_def)
  from play_reply[OF this, of demo_api demo_mgr "''stale''"]
  show ?thesis
    by (simp add: track_manager_play_def demo_api_def demo_mgr_def prod_eq_iff)
qed

section \<open>Truncation of long input\<close>

text \<open>
  Claim C5. For every input string longer than the 255 bytes that fit the command buffer
  \<open>cmd_buf[256]\<close>, \<open>process_command\<close> returns exactly what it returns for the first 255
  bytes of the input: the same result, the same reply, the same effect on the subsystem.
  The rest of the input is ignored and nothing fails because of it.
\<close>

theorem process_command_truncates:
  assumes "255 < length cmd_str"
  shows "process_command api cmd_str mgr response resp_size =
         process_command api (take 255 cmd_str) mgr response resp_size"
  by (simp add: process_command_def split_command_def strncpy_take)

theorem process_command_truncates_witness:
  "255 < length (''play '' @ replicate 300 (CHR ''a''))
   \<and> process_command demo_api (''play '' @ replicate 300 (CHR ''a'')) demo_mgr ''stale'' 1024 =
       process_command demo_api (take 255 (''play '' @ replicate 300 (CHR ''a''))) demo_mgr ''stale'' 1024"
proof -
  have h: "255 < length (''play '' @ replicate 300 (CHR ''a''))" by simp
  show ?thesis using h process_command_truncates[OF h] by simp
qed

section \<open>Splitting the line into keyword and argument\<close>

text \<open>
  Claim C4, as stated, fails on the line \<open>play\<close>, two spaces, \<open>x\<close>: the words of the
  specification give the argument \<open>x\<close>, everything behind the run of two spaces; the code
  ends the keyword at the first space and takes everything behind that one space, so the
  handler receives the argument \<open>x\<close> with a space in front.
\<close>

theorem split_whitespace_run_counterexample:
  "split_command ''play  x'' = (Some ''play'', Some '' x'')
   \<and> spec_split_first_whitespace_run ''play  x'' = (''play'', ''x'')
   \<and> snd (split_command ''play  x'') \<noteq> Some (snd (spec_split_first_whitespace_run ''play  x''))"
  by (simp add: split_command_def strncpy_def c_str_def NUL_def strtok_def
      spec_split_first_whitespace_run_def isspace_def)

lemma strncpy_fits:
  assumes "NUL \<notin> set s" and "length s \<le> n"
  shows "strncpy n s = s"
  using assms by (simp add: strncpy_def c_str_no_NUL)

text \<open>
  Claim C4, amended. For every input line of text (no NUL byte) that fits the 255 bytes
  of the command buffer: spaces at the start of the line are skipped; the keyword is the
  run of bytes up to the next space character (only the space character separates, no
  other whitespace); the argument is everything behind that single space, further
  spaces included and with no further splitting, and it is absent when nothing follows
  the space or the line ends with the keyword. A line of spaces only has no keyword.
\<close>

theorem split_command_first_space:
  assumes "k \<noteq> []" and "CHR '' '' \<notin> set k" and "NUL \<notin> set k" and "NUL \<notin> set a"
  shows "(n + length k + 1 + length a \<le> 255 \<longrightarrow>
            split_command (replicate n (CHR '' '') @ k @ CHR '' '' # a) =
              (Some k, if a = [] then None else Some a))
       \<and> (n + length k \<le> 255 \<longrightarrow>
            split_command (replicate n (CHR '' '') @ k) = (Some k, None))
       \<and> split_command (replicate n (CHR '' '')) = (None, None)"
proof (intro conjI impI)
  assume len: "n + length k + 1 + length a \<le> 255"
  let ?s = "replicate n (CHR '' '') @ k @ CHR '' '' # a"
  have "NUL \<notin> set ?s" using assms(3,4) by (auto simp: NUL_def)
  moreover have "length ?s \<le> 255" using len by simp
  ultimately have buf: "strncpy 255 ?s = ?s" by (rule strncpy_fits)
  have tok: "strtok ?s '' '' = (Some k, a)"
    using assms(1,2) by (rule strtok_keyword_space)
  show "split_command ?s = (Some k, if a = [] then None else Some a)"
    unfolding split_command_def buf Let_def tok prod.case strtok_no_delim by simp
next
  assume len: "n + length k \<le> 255"
  let ?s = "replicate n (CHR '' '') @ k"
  have "NUL \<notin> set ?s" using assms(3) by (auto simp: NUL_def)
  moreover have "length ?s \<le> 255" using len by simp
  ultimately have buf: "strncpy 255 ?s = ?s" by (rule strncpy_fits)
  have tok: "strtok ?s '' '' = (Some k, [])"
    using assms(1,2) by (rule strtok_keyword_end)
  show "split_command ?s = (Some k, None)"
    unfolding split_command_def buf Let_def tok prod.case strtok_no_delim by simp
next
  let ?s = "replicate n (CHR '' '')"
  have "NUL \<notin> set (take 255 ?s)" by (auto simp: NUL_def dest: in_set_takeD)
  then have buf: "strncpy 255 ?s = replicate (min 255 n) (CHR '' '')"
    by (simp add: strncpy_def c_str_no_NUL)
  show "split_command ?s = (None, None)"
    unfolding split_command_def buf Let_def strtok_spaces_only prod.case strtok_no_delim by simp
qed

theorem split_command_first_space_witness:
  "split_command ''  play  a b '' = (Some ''play'', Some '' a b '')
   \<and> split_command ''  play'' = (Some ''play'', None)
   \<and> split_command ''  '' = (None, None)"
proof -
  have "''play'' \<noteq> []" "CHR '' '' \<notin> set ''play''" "NUL \<notin> set ''play''" "NUL \<notin> set '' a b ''"
    by (simp_all add: NUL_def)
  from split_command_first_space[OF this, of 2]
  show ?thesis by (simp add: numeral_2_eq_2)
qed

section \<open>Shape of the reply\<close>

lemma find_handler_COMMANDS_Some:
  fixes h :: "'s handler"
  assumes "find_handler COMMANDS c = Some h"
  shows "h = handle_play \<or> h = handle_stop \<or> h = handle_stop_all
       \<or> h = handle_list \<or> h = handle_status \<or> h = handle_reload"
  using assms by (auto simp: COMMANDS_def split: if_splits)

lemma tagged_ok:
  assumes "r = (0, snprintf response resp_size (''OK: '' @ msg), m')" and "msg \<noteq> []"
  shows "\<exists>m. m \<noteq> [] \<and>
     ((fst r = (0::int) \<and> fst (snd r) = snprintf response resp_size (''OK: '' @ m))
    \<or> (fst r = -1 \<and> fst (snd r) = snprintf response resp_size (''ERROR: '' @ m)))"
  unfolding assms(1) fst_conv snd_conv using assms(2) by blast

lemma tagged_error:
  assumes "r = (-1, snprintf response resp_size (''ERROR: '' @ msg), m')" and "msg \<noteq> []"
  shows "\<exists>m. m \<noteq> [] \<and>
     ((fst r = (0::int) \<and> fst (snd r) = snprintf response resp_size (''OK: '' @ m))
    \<or> (fst r = -1 \<and> fst (snd r) = snprintf response resp_size (''ERROR: '' @ m)))"
  unfolding assms(1) fst_conv snd_conv using assms(2) by blast

lemma handler_tagged:
  fixes h :: "'s handler"
  assumes "h = handle_play \<or> h = handle_stop \<or> h = handle_stop_all
         \<or> h = handle_list \<or> h = handle_status \<or> h = handle_reload"
  shows "\<exists>m. m \<noteq> [] \<and>
     ((fst (h api mgr arg response resp_size) = 0
        \<and> fst (snd (h api mgr arg response resp_size)) = snprintf response resp_size (''OK: '' @ m))
    \<or> (fst (h api mgr arg response resp_size) = -1
        \<and> fst (snd (h api mgr arg response resp_size)) = snprintf response resp_size (''ERROR: '' @ m)))"
proof -
  consider (play) "h = handle_play" | (stop) "h = handle_stop" | (stop_all) "h = handle_stop_all"
    | (list) "h = handle_list" | (status) "h = handle_status" | (reload) "h = handle_reload"
    using assms by blast
  then show ?thesis
  proof cases
    case play
    show ?thesis
    proof (cases "arg = None \<or> arg = Some []")
      case True
      then have "h api mgr arg response resp_size =
          (-1, snprintf response resp_size (''ERROR: '' @ ''Missing track ID''), mgr)"
        unfolding play by (auto simp: handle_play_def)
      then show ?thesis by (rule tagged_error) simp
    next
      case False
      then obtain t where t: "arg = Some t" "t \<noteq> []" by auto
      obtain b m' where tm: "track_manager_play api mgr t = (b, m')"
        by (cases "track_manager_play api mgr t")
      show ?thesis
      proof (cases b)
        case True
        have "h api mgr arg response resp_size =
            (0, snprintf response resp_size (''OK: '' @ (''Playing track '' @ t)), m')"
          unfolding play using t tm True by (simp add: handle_play_def)
        then show ?thesis by (rule tagged_ok) simp
      next
        case False
        have "h api mgr arg response resp_size =
            (-1, snprintf response resp_size (''ERROR: '' @ (''Failed to play track '' @ t)), m')"
          unfolding play using t tm False by (simp add: handle_play_def)
        then show ?thesis by (rule tagged_error) simp
      qed
    qed
  next
    case stop
    show ?thesis
    proof (cases "arg = None \<or> arg = Some []")
      case True
      then have "h api mgr arg response resp_size =
          (-1, snprintf response resp_size (''ERROR: '' @ ''Missing track ID''), mgr)"
        unfolding stop by (auto simp: handle_stop_def)
      then show ?thesis by (rule tagged_error) simp
    next
      case False
      then obtain t where t: "arg = Some t" "t \<noteq> []" by auto
      obtain b m' where tm: "track_manager_stop api mgr t = (b, m')"
        by (cases "track_manager_stop api mgr t")
      show ?thesis
      proof (cases b)
        case True
        have "h api mgr arg response resp_size =
            (0, snprintf response resp_size (''OK: '' @ (''Stopped track '' @ t)), m')"
          unfolding stop using t tm True by (simp add: handle_stop_def)
        then show ?thesis by (rule tagged_ok) simp
      next
        case False
        have "h api mgr arg response resp_size =
            (-1, snprintf response resp_size (''ERROR: '' @ (''Failed to stop track '' @ t)), m')"
          unfolding stop using t tm False by (simp add: handle_stop_def)
        then show ?thesis by (rule tagged_error) simp
      qed
    qed
  next
    case stop_all
    obtain b m' where tm: "track_manager_stop_all api mgr = (b, m')"
      by (cases "track_manager_stop_all api mgr")
    show ?thesis
    proof (cases b)
      case True
      have "h api mgr arg response resp_size =
          (0, snprintf response resp_size (''OK: '' @ ''Stopped all tracks''), m')"
        unfolding stop_all using tm True by (simp add: handle_stop_all_def)
      then show ?thesis by (rule tagged_ok) simp
    next
      case False
      have "h api mgr arg response resp_size =
          (-1, snprintf response resp_size (''ERROR: '' @ ''Failed to stop all tracks''), m')"
        unfolding stop_all using tm False by (simp add: handle_stop_all_def)
      then show ?thesis by (rule tagged_error) simp
    qed
  next
    case list
    have "h api mgr arg response resp_size =
        (0, snprintf response resp_size (''OK: '' @ ''Track listing not yet implemented''), mgr)"
      unfolding list by (simp add: handle_list_def)
    then show ?thesis by (rule tagged_ok) simp
  next
    case status
    have "h api mgr arg response resp_size =
        (0, snprintf response resp_size (''OK: '' @ ''Status not yet implemented''), mgr)"
      unfolding status by (simp add: handle_status_def)
    then show ?thesis by (rule tagged_ok) simp
  next
    case reload
    have "h api mgr arg response resp_size =
        (0, snprintf response resp_size (''OK: '' @ ''Reload signal sent''), mgr)"
      unfolding reload by (simp add: handle_reload_def)
    then show ?thesis by (rule tagged_ok) simp
  qed
qed

lemma process_command_tagged:
  fixes api :: "'s track_manager_api" and mgr :: "'s track_manager_ctx"
    and cmd_str response :: string and resp_size :: nat
  defines "r \<equiv> process_command api cmd_str mgr response resp_size"
  shows "\<exists>m. m \<noteq> [] \<and>
     ((fst r = 0 \<and> fst (snd r) = snprintf response resp_size (''OK: '' @ m))
    \<or> (fst r = -1 \<and> fst (snd r) = snprintf response resp_size (''ERROR: '' @ m)))"
proof -
  obtain cmd arg where sp: "split_command cmd_str = (cmd, arg)"
    by (cases "split_command cmd_str")
  show ?thesis
  proof (cases cmd)
    case None
    have "r = (-1, snprintf response resp_size (''ERROR: '' @ ''Empty command''), mgr)"
      unfolding r_def process_command_def sp None by simp
    then show ?thesis by (rule tagged_error) simp
  next
    case (Some c)
    show ?thesis
    proof (cases "find_handler (COMMANDS :: (string \<times> 's handler) list) c")
      case None
      have "r = (-1, snprintf response resp_size
                  (''ERROR: '' @ (''Unknown command '' @ [CHR 0x27] @ c @ [CHR 0x27])), mgr)"
        unfolding r_def process_command_def sp Some by (simp add: None)
      then show ?thesis by (rule tagged_error) simp
    next
      case (Some h)
      have "r = h api mgr arg response resp_size"
        unfolding r_def process_command_def sp \<open>cmd = Some c\<close> by (simp add: Some)
      then show ?thesis
        using handler_tagged[OF find_handler_COMMANDS_Some[OF Some]] by simp
    qed
  qed
qed

lemma take_tag:
  assumes "length tag \<le> n"
  shows "take n (tag @ msg) = tag @ take (n - length tag) msg"
  using assms by simp

text \<open>
  Claim C6. For every input line, every subsystem and every previous content of the
  response buffer, the reply of \<open>process_command\<close> is \<open>OK: \<close> or \<open>ERROR: \<close> followed by a
  message that is not empty, and the reply with its terminator fits the response buffer.
  The buffer must have at least 9 bytes, so that the longer tag and one byte of message
  fit (the caller's has 1024).
\<close>

theorem response_tagged_and_bounded:
  fixes api :: "'s track_manager_api" and mgr :: "'s track_manager_ctx"
    and cmd_str response :: string and resp_size :: nat
  assumes "9 \<le> resp_size"
  defines "reply \<equiv> fst (snd (process_command api cmd_str mgr response resp_size))"
  shows "(\<exists>msg. msg \<noteq> [] \<and> (reply = ''OK: '' @ msg \<or> reply = ''ERROR: '' @ msg))
       \<and> length reply < resp_size"
proof -
  obtain m where m: "m \<noteq> []"
    and "reply = snprintf response resp_size (''OK: '' @ m)
       \<or> reply = snprintf response resp_size (''ERROR: '' @ m)"
    unfolding reply_def using process_command_tagged[of api cmd_str mgr response resp_size]
    by blast
  then consider (ok) "reply = take (resp_size - 1) (''OK: '' @ m)"
    | (error) "reply = take (resp_size - 1) (''ERROR: '' @ m)"
    using assms(1) by (auto simp: snprintf_def)
  then show ?thesis
  proof cases
    case ok
    have "reply = ''OK: '' @ take (resp_size - 1 - length ''OK: '') m"
      unfolding ok using assms(1) by (intro take_tag) simp
    moreover have "take (resp_size - 1 - length ''OK: '') m \<noteq> []"
      using m assms(1) by simp
    moreover have "length reply < resp_size"
      unfolding ok using assms(1) by simp
    ultimately show ?thesis by blast
  next
    case error
    have "reply = ''ERROR: '' @ take (resp_size - 1 - length ''ERROR: '') m"
      unfolding error using assms(1) by (intro take_tag) simp
    moreover have "take (resp_size - 1 - length ''ERROR: '') m \<noteq> []"
      using m assms(1) by simp
    moreover have "length reply < resp_size"
      unfolding error using assms(1) by simp
    ultimately show ?thesis by blast
  qed
qed

theorem response_tagged_and_bounded_witness:
  "fst (snd (process_command demo_api ''stop intro'' demo_mgr ''stale'' 1024)) = ''OK: Stopped track intro''
   \<and> (\<exists>msg. msg \<noteq> [] \<and>
      (fst (snd (process_command demo_api ''stop intro'' demo_mgr ''stale'' 1024)) = ''OK: '' @ msg
     \<or> fst (snd (process_command demo_api ''stop intro'' demo_mgr ''stale'' 1024)) = ''ERROR: '' @ msg))
   \<and> length (fst (snd (process_command demo_api ''stop intro'' demo_mgr ''stale'' 1024))) < 1024"
proof -
  have "fst (snd (process_command demo_api ''stop intro'' demo_mgr ''stale'' 1024)) = ''OK: Stopped track intro''"
    by code_simp
  moreover have "9 \<le> (1024::nat)" by simp
  note response_tagged_and_bounded[OF this, of demo_api "''stop intro''" demo_mgr "''stale''"]
  ultimately show ?thesis by (simp only: simp_thms)
qed

text \<open>
  Claim C10. For every input line and every subsystem, the result of \<open>process_command\<close>
  is \<open>0\<close> exactly when the reply begins with \<open>OK\<close>, and negative exactly when the reply
  begins with \<open>ERROR\<close>. The response buffer must have at least 6 bytes, so that the tag
  \<open>ERROR\<close> is not cut (the caller's has 1024).
\<close>

theorem result_agrees_with_tag:
  fixes api :: "'s track_manager_api" and mgr :: "'s track_manager_ctx"
    and cmd_str response :: string and resp_size :: nat
  assumes "6 \<le> resp_size"
  defines "r \<equiv> process_command api cmd_str mgr response resp_size"
  shows "(fst r = 0 \<longleftrightarrow> prefix ''OK'' (fst (snd r)))
       \<and> (fst r < 0 \<longleftrightarrow> prefix ''ERROR'' (fst (snd r)))"
proof -
  obtain m where
    "(fst r = 0 \<and> fst (snd r) = snprintf response resp_size (''OK: '' @ m))
   \<or> (fst r = -1 \<and> fst (snd r) = snprintf response resp_size (''ERROR: '' @ m))"
    unfolding r_def using process_command_tagged[of api cmd_str mgr response resp_size]
    by blast
  then consider (ok) "fst r = 0" "fst (snd r) = take (resp_size - 1) (''OK: '' @ m)"
    | (error) "fst r = -1" "fst (snd r) = take (resp_size - 1) (''ERROR: '' @ m)"
    using assms(1) by (auto simp: snprintf_def)
  then show ?thesis
  proof cases
    case ok
    have "take (resp_size - 1) (''OK: '' @ m) = ''OK: '' @ take (resp_size - 1 - length ''OK: '') m"
      using assms(1) by (intro take_tag) simp
    then show ?thesis using ok by simp
  next
    case error
    have "take (resp_size - 1) (''ERROR'' @ ('': '' @ m))
            = ''ERROR'' @ take (resp_size - 1 - length ''ERROR'') ('': '' @ m)"
      using assms(1) by (intro take_tag) simp
    then show ?thesis using error by simp
  qed
qed

theorem result_agrees_with_tag_witness:
  "process_command demo_api ''play nosuch'' demo_mgr ''stale'' 1024 =
     (-1, ''ERROR: Failed to play track nosuch'',
      \<lparr>tm_state = [''intro''], tm_calls = [TM_PLAY ''nosuch'']\<rparr>)
   \<and> (fst (process_command demo_api ''play nosuch'' demo_mgr ''stale'' 1024) = 0
      \<longleftrightarrow> prefix ''OK'' (fst (snd (process_command demo_api ''play nosuch'' demo_mgr ''stale'' 1024))))
   \<and> (fst (process_command demo_api ''play nosuch'' demo_mgr ''stale'' 1024) < 0
      \<longleftrightarrow> prefix ''ERROR'' (fst (snd (process_command demo_api ''play nosuch'' demo_mgr ''stale'' 1024))))"
proof -
  have "process_command demo_api ''play nosuch'' demo_mgr ''stale'' 1024 =
     (-1, ''ERROR: Failed to play track nosuch'',
      \<lparr>tm_state = [''intro''], tm_calls = [TM_PLAY ''nosuch'']\<rparr>)"
    by code_simp
  moreover have "6 \<le> (1024::nat)" by simp
  note result_agrees_with_tag[OF this, of demo_api "''play nosuch''" demo_mgr "''stale''"]
  ultimately show ?thesis by (simp only: simp_thms)
qed

section \<open>Stopping all tracks twice\<close>

lemma split_command_stop_all: "split_command ''stop-all'' = (Some ''stop-all'', None)"
  by (simp add: split_command_def strncpy_def c_str_def NUL_def strtok_def)

lemma process_command_stop_all:
  fixes api :: "'s track_manager_api"
  shows "process_command api ''stop-all'' mgr response resp_size =
         handle_stop_all api mgr None response resp_size"
proof -
  have fh: "find_handler (COMMANDS :: (string \<times> 's handler) list) ''stop-all'' = Some handle_stop_all"
    by (simp add: COMMANDS_def)
  show ?thesis
    unfolding process_command_def split_command_stop_all
    by (simp only: Let_def prod.case option.case fh)
qed

lemma handle_stop_all_ok:
  assumes "fst (api_stop_all api (tm_state mgr))" and "23 \<le> resp_size"
  shows "handle_stop_all api mgr arg response resp_size =
           (0, ''OK: Stopped all tracks'', snd (track_manager_stop_all api mgr))"
proof -
  obtain b s' where call: "api_stop_all api (tm_state mgr) = (b, s')"
    by (cases "api_stop_all api (tm_state mgr)")
  with assms(1) have b by simp
  with call assms(2) show ?thesis
    by (simp add: handle_stop_all_def track_manager_stop_all_def snprintf_def)
qed

text \<open>
  Claim C9. For a subsystem whose \<open>stop_all\<close> reports success in every state,
  dispatching \<open>stop-all\<close> twice in a row, the second time on the subsystem and the
  response buffer the first left behind, gives result \<open>0\<close> and the reply
  \<open>OK: Stopped all tracks\<close> both times, whatever the state of the subsystem at the start.
\<close>

theorem stop_all_idempotent:
  fixes api :: "'s track_manager_api"
  assumes "\<forall>s. fst (api_stop_all api s)" and "23 \<le> resp_size"
  shows "(let (rc1, reply1, mgr1) = process_command api ''stop-all'' mgr response resp_size;
              (rc2, reply2, mgr2) = process_command api ''stop-all'' mgr1 reply1 resp_size
          in rc1 = 0 \<and> reply1 = ''OK: Stopped all tracks''
           \<and> rc2 = 0 \<and> reply2 = ''OK: Stopped all tracks'')"
proof -
  have ok: "\<And>m r. process_command api ''stop-all'' m r resp_size =
              (0, ''OK: Stopped all tracks'', snd (track_manager_stop_all api m))"
    unfolding process_command_stop_all
    using assms by (intro handle_stop_all_ok) simp_all
  show ?thesis
    by (simp only: ok Let_def prod.case simp_thms)
qed

theorem stop_all_idempotent_witness:
  "(let (rc1, reply1, mgr1) = process_command demo_api ''stop-all'' demo_mgr ''stale'' 1024;
        (rc2, reply2, mgr2) = process_command demo_api ''stop-all'' mgr1 reply1 1024
    in rc1 = 0 \<and> reply1 = ''OK: Stopped all tracks''
     \<and> rc2 = 0 \<and> reply2 = ''OK: Stopped all tracks'')"
proof -
  have "\<forall>s. fst (api_stop_all demo_api s)" by (simp add: demo_api_def)
  moreover have "23 \<le> (1024::nat)" by simp
  ultimately show ?thesis by (rule stop_all_idempotent)
qed

section \<open>Failure during initialisation\<close>

text \<open>
  Claim C7. When \<open>socket\<close>, \<open>bind\<close> or \<open>listen\<close> fails (returns a negative value),
  \<open>socket_server_init\<close> returns NULL, and the open file descriptors and the live heap
  blocks are those from before the call: the descriptor that \<open>socket\<close> opened has been
  closed and the context that \<open>calloc\<close> allocated has been freed. \<open>socket\<close> and
  \<open>calloc\<close> are taken to return a descriptor and a block that were not in use.
\<close>

theorem init_failure_releases:
  assumes fail: "socket_result env < 0 \<or> bind_result env < 0 \<or> listen_result env < 0"
    and fresh_fd: "socket_result env \<notin> open_fds os"
    and fresh_block: "\<forall>p. calloc_result env = Some p \<longrightarrow> p \<notin> dom (heap os)"
  shows "fst (socket_server_init path_size env mgr_ptr os) = None
       \<and> open_fds (snd (socket_server_init path_size env mgr_ptr os)) = open_fds os
       \<and> heap (snd (socket_server_init path_size env mgr_ptr os)) = heap os"
proof (cases "calloc_result env")
  case None
  then show ?thesis by (simp add: socket_server_init_def log_msg_def)
next
  case (Some ctx)
  with fresh_block have fresh: "ctx \<notin> dom (heap os)" by simp
  then have h: "(heap os)(ctx := None) = heap os" by auto
  show ?thesis
  proof (cases "get_socket_path (getuid_result env) (Some []) path_size")
    case None
    then show ?thesis
      using Some h by (simp add: socket_server_init_def log_msg_def sys_free_def)
  next
    case (Some path)
    show ?thesis
      using \<open>calloc_result env = Some ctx\<close> Some h fail fresh_fd
      by (auto simp: socket_server_init_def Let_def log_msg_def sys_free_def sys_close_def
          sys_unlink_def)
  qed
qed

theorem init_failure_releases_witness:
  "fst (socket_server_init 108
      \<lparr>calloc_result = Some 4096, getuid_result = 1000, socket_result = 3,
       bind_result = 0, listen_result = -1, bind_file_mode = 493\<rparr> (Some 8192)
      \<lparr>open_fds = {0, 1, 2}, heap = Map.empty, files = Map.empty, logged = []\<rparr>) = None
   \<and> open_fds (snd (socket_server_init 108
      \<lparr>calloc_result = Some 4096, getuid_result = 1000, socket_result = 3,
       bind_result = 0, listen_result = -1, bind_file_mode = 493\<rparr> (Some 8192)
      \<lparr>open_fds = {0, 1, 2}, heap = Map.empty, files = Map.empty, logged = []\<rparr>)) = {0, 1, 2}
   \<and> heap (snd (socket_server_init 108
      \<lparr>calloc_result = Some 4096, getuid_result = 1000, socket_result = 3,
       bind_result = 0, listen_result = -1, bind_file_mode = 493\<rparr> (Some 8192)
      \<lparr>open_fds = {0, 1, 2}, heap = Map.empty, files = Map.empty, logged = []\<rparr>)) = Map.empty"
  using init_failure_releases[of
      "\<lparr>calloc_result = Some 4096, getuid_result = 1000, socket_result = 3,
        bind_result = 0, listen_result = -1, bind_file_mode = 493\<rparr>"
      "\<lparr>open_fds = {0, 1, 2}, heap = Map.empty, files = Map.empty, logged = []\<rparr>"
      108 "Some 8192"]
  by simp

section \<open>A connection that delivers nothing\<close>

lemma serve_connection_events:
  "\<exists>evs. th_events (serve_connection api env st) = th_events st @ ACCEPT (it_accept env) # evs"
  by (simp add: serve_connection_def Let_def emit_def split: prod.splits)

lemma server_loop_events:
  "\<exists>evs. th_events (snd (server_loop api envs st)) = th_events st @ evs"
proof (induction envs arbitrary: st)
  case Nil
  then show ?case by simp
next
  case (Cons env envs)
  show ?case
  proof (cases "it_running env")
    case True
    obtain e1 where e1: "th_events (serve_connection api env st) = th_events st @ ACCEPT (it_accept env) # e1"
      using serve_connection_events by blast
    obtain e2 where "th_events (snd (server_loop api envs (serve_connection api env st)))
        = th_events (serve_connection api env st) @ e2"
      using Cons.IH by blast
    then show ?thesis using True e1 by simp
  next
    case False
    then show ?thesis by simp
  qed
qed

text \<open>
  Claim C8. When \<open>accept\<close> returned a connection and \<open>read\<close> on it returns zero or a
  negative count, that pass of the loop does exactly three things: the \<open>accept\<close>, the
  \<open>read\<close> and the \<open>close\<close> of the connection. \<open>process_command\<close> is not called, nothing
  is written, and the subsystem and the response buffer are unchanged. The loop then
  goes on with its next pass, and when the listener is still running its next call is
  \<open>accept\<close>.
\<close>

theorem read_nothing_closes_connection:
  fixes api :: "'s track_manager_api" and st :: "'s thread_state"
  assumes "0 \<le> it_accept env" and "fst (sys_read (it_read env) (1024 - 1)) \<le> 0"
  defines "fd \<equiv> it_accept env"
  defines "n \<equiv> fst (sys_read (it_read env) (1024 - 1))"
  defines "st' \<equiv> st\<lparr>th_events := th_events st @ [ACCEPT fd, READ fd n, CLOSE fd]\<rparr>"
  shows "serve_connection api env st = st'
       \<and> (it_running env \<longrightarrow> server_loop api (env # envs) st = server_loop api envs st')
       \<and> (it_running env \<and> it_running env' \<longrightarrow>
            (\<exists>evs. th_events (snd (server_loop api (env # env' # envs) st))
                     = th_events st' @ ACCEPT (it_accept env') # evs))"
proof -
  obtain k buf where rd: "sys_read (it_read env) (1024 - 1) = (k, buf)"
    by (cases "sys_read (it_read env) (1024 - 1)")
  have body: "serve_connection api env st = st'"
    using assms(1,2) rd
    by (simp add: serve_connection_def Let_def emit_def st'_def fd_def n_def)
  have next_accept: "\<exists>evs. th_events (snd (server_loop api (env' # envs) st'))
                       = th_events st' @ ACCEPT (it_accept env') # evs" if "it_running env'"
  proof -
    obtain e1 where e1: "th_events (serve_connection api env' st')
          = th_events st' @ ACCEPT (it_accept env') # e1"
      using serve_connection_events by blast
    obtain e2 where "th_events (snd (server_loop api envs (serve_connection api env' st')))
          = th_events (serve_connection api env' st') @ e2"
      using server_loop_events by blast
    then show ?thesis using that e1 by simp
  qed
  show ?thesis using body next_accept by simp
qed

theorem read_nothing_closes_connection_witness:
  "serve_connection demo_api
       \<lparr>it_running = True, it_accept = 4, it_running_after = True, it_read = Some []\<rparr>
       \<lparr>th_mgr = demo_mgr, th_response = ''stale'', th_events = []\<rparr>
     = \<lparr>th_mgr = demo_mgr, th_response = ''stale'', th_events = [ACCEPT 4, READ 4 0, CLOSE 4]\<rparr>"
  using read_nothing_closes_connection[of
      "\<lparr>it_running = True, it_accept = 4, it_running_after = True, it_read = Some []\<rparr>"
      demo_api "\<lparr>th_mgr = demo_mgr, th_response = ''stale'', th_events = []\<rparr>"]
  by (simp add: sys_read_def)

end
